theory Spec2Isabelle
  imports Complex_Main "HOL-Library.Word" "HOL-Library.Sublist" "HOL-Library.List_Lexorder"
    "HOL-Library.Multiset"
begin

chapter \<open>The frame rejuvenation console: script assembly and the per-frame pipeline\<close>

text \<open>
  A shallow embedding of the production console (the React component \<open>App\<close>, kept in
  \<^verbatim>\<open>src/unnamed/part_000\<close>) and of its service module
  \<^verbatim>\<open>src/services/geminiService.ts\<close>. The definitions come first, in the order of the
  source; the properties follow.
\<close>

section \<open>JavaScript strings\<close>

text \<open>
  A JavaScript string is a sequence of 16-bit code units: \<open>length\<close>, \<open>substring\<close>,
  \<open>indexOf\<close>, \<open>split\<close> and the default order of \<open>Array.prototype.sort\<close> all count and
  compare code units. The order on \<open>jsstring\<close> is the lexicographic order of lists over the
  unsigned order of words, which is that default order. \<open>js\<close> reads an ASCII literal.
\<close>

type_synonym code_unit = "16 word"
type_synonym jsstring = "code_unit list"

definition js :: "string \<Rightarrow> jsstring" where
  "js s = map of_char s"

text \<open>\<open>s.split(sep)\<close> for a separator of one code unit: never an empty array.\<close>

fun js_split :: "'a \<Rightarrow> 'a list \<Rightarrow> 'a list list" where
  "js_split sep [] = [[]]"
| "js_split sep (c # cs) =
     (if c = sep then [] # js_split sep cs
      else (case js_split sep cs of
              [] \<Rightarrow> [[c]]
            | w # ws \<Rightarrow> (c # w) # ws))"

text \<open>\<open>xs.shift()\<close> as a value: the first element, or \<open>undefined\<close> on an empty array.\<close>

definition shift :: "'a list \<Rightarrow> 'a option" where
  "shift xs = (case xs of [] \<Rightarrow> None | x # _ \<Rightarrow> Some x)"

text \<open>
  \<open>v || d\<close> on a string that may be \<open>undefined\<close> or \<open>null\<close> (both \<open>None\<close>): the empty
  string is falsy too.
\<close>

definition orDefault :: "jsstring option \<Rightarrow> jsstring \<Rightarrow> jsstring" where
  "orDefault v d = (case v of None \<Rightarrow> d | Some s \<Rightarrow> (if s = [] then d else s))"

text \<open>\<open>xs.join(sep)\<close> on an array of strings.\<close>

fun join :: "'a list \<Rightarrow> 'a list list \<Rightarrow> 'a list" where
  "join sep [] = []"
| "join sep [x] = x"
| "join sep (x # y # ys) = x @ sep @ join sep (y # ys)"

definition startsWith :: "'a list \<Rightarrow> 'a list \<Rightarrow> bool" where
  "startsWith s p = prefix p s"

definition endsWith :: "'a list \<Rightarrow> 'a list \<Rightarrow> bool" where
  "endsWith s p = suffix p s"

text \<open>
  \<open>s.substring(start, end)\<close>: both indices are clamped to \<open>[0, length]\<close> and swapped when
  they come in the wrong order, so no index is ever out of range.
\<close>

definition substring :: "'a list \<Rightarrow> int \<Rightarrow> int \<Rightarrow> 'a list" where
  "substring s start end' =
     (let len = int (length s);
          a = max 0 (min start len);
          b = max 0 (min end' len);
          lo = min a b;
          hi = max a b
      in take (nat (hi - lo)) (drop (nat lo) s))"

text \<open>
  \<open>hay.indexOf(needle)\<close>: the first position at which \<open>needle\<close> starts, \<open>-1\<close> when there
  is none. The empty needle is found at position 0.
\<close>

fun indexOfFrom :: "'a list \<Rightarrow> 'a list \<Rightarrow> nat \<Rightarrow> int" where
  "indexOfFrom needle [] k = (if needle = [] then int k else - 1)"
| "indexOfFrom needle (c # cs) k =
     (if prefix needle (c # cs) then int k else indexOfFrom needle cs (Suc k))"

definition indexOf :: "'a list \<Rightarrow> 'a list \<Rightarrow> int" where
  "indexOf hay needle = indexOfFrom needle hay 0"

text \<open>
  \<open>s.trim()\<close> removes white space and line terminators from both ends: TAB, LF, VT, FF,
  CR, SP, NBSP, the space separators U+1680, U+2000 to U+200A, U+202F, U+205F, U+3000,
  the line and paragraph separators U+2028, U+2029, and the byte order mark U+FEFF.
\<close>

definition isWhiteSpace :: "code_unit \<Rightarrow> bool" where
  "isWhiteSpace c =
     (c = 0x9 \<or> c = 0xA \<or> c = 0xB \<or> c = 0xC \<or> c = 0xD \<or> c = 0x20 \<or> c = 0xA0 \<or>
      c = 0x1680 \<or> (0x2000 \<le> c \<and> c \<le> 0x200A) \<or> c = 0x2028 \<or> c = 0x2029 \<or>
      c = 0x202F \<or> c = 0x205F \<or> c = 0x3000 \<or> c = 0xFEFF)"

definition trim :: "jsstring \<Rightarrow> jsstring" where
  "trim s = rev (dropWhile isWhiteSpace (rev (dropWhile isWhiteSpace s)))"

section \<open>Assets\<close>

text \<open>
  The two asset types of the component. An object used as a dictionary
  (\<open>Record<string, SourceImage>\<close>) is an association list in the order of its keys;
  \<open>Object.keys\<close> and \<open>Object.values\<close> read it in that order, and an object holds each
  key once.
\<close>

record SourceImage =
  fileName :: jsstring
  base64 :: jsstring
  mimeType :: jsstring

record TextFile =
  name :: jsstring
  content :: jsstring

type_synonym images = "(jsstring \<times> SourceImage) list"

text \<open>
  The entry that \<open>recursiveUnzip\<close> files for an archive member \<open>nm\<close> whose extension \<open>ext\<close>
  is one of \<open>png\<close>, \<open>jpg\<close>, \<open>jpeg\<close>, \<open>webp\<close>:
  \<open>extractedImages[name] = { fileName: name, base64, mimeType: mime }\<close> with
  \<open>mime = `image/${ext === 'jpg' ? 'jpeg' : ext}`\<close>.
\<close>

definition extractedImage :: "jsstring \<Rightarrow> jsstring \<Rightarrow> jsstring \<Rightarrow> jsstring \<times> SourceImage" where
  "extractedImage nm ext data =
     (nm, \<lparr>fileName = nm, base64 = data,
           mimeType = js ''image/'' @ (if ext = js ''jpg'' then js ''jpeg'' else ext)\<rparr>)"

definition Object_keys :: "(jsstring \<times> 'v) list \<Rightarrow> jsstring list" where
  "Object_keys obj = map fst obj"


section \<open>The script assembler (handleUpload)\<close>

text \<open>
  \<open>const base = imageKey.split('.').shift() || ""\<close>, written in \<open>handleUpload\<close> and again
  in \<open>processProductionRun\<close>.
\<close>

definition base :: "jsstring \<Rightarrow> jsstring" where
  "base imageKey = orDefault (shift (js_split 0x2E imageKey)) (js '''')"

text \<open>
  \<open>texts.find(t => t.name.startsWith(base) && t.name.endsWith('.txt'))\<close>: the first text
  asset that matches, \<open>undefined\<close> when none does.
\<close>

definition findTextFile :: "TextFile list \<Rightarrow> jsstring \<Rightarrow> TextFile option" where
  "findTextFile texts b =
     find (\<lambda>t. startsWith (name t) b \<and> endsWith (name t) (js ''.txt'')) texts"

definition sortedImageKeys :: "images \<Rightarrow> jsstring list" where
  "sortedImageKeys tempProcessed = sort (Object_keys tempProcessed)"

text \<open>
  The loop over \<open>sortedImageKeys\<close>; the accumulator is the array \<open>hs4000Lines\<close>, to which
  the loop pushes.
\<close>

fun hs4000Loop :: "TextFile list \<Rightarrow> jsstring list \<Rightarrow> jsstring list \<Rightarrow> jsstring list" where
  "hs4000Loop tempTexts [] hs4000Lines = hs4000Lines"
| "hs4000Loop tempTexts (imageKey # rest) hs4000Lines =
     (case findTextFile tempTexts (base imageKey) of
        None \<Rightarrow> hs4000Loop tempTexts rest hs4000Lines
      | Some tFile \<Rightarrow>
          (let lines = js_split 0xA (content tFile)
           in if 4 \<le> length lines
              then hs4000Loop tempTexts rest (hs4000Lines @ [lines ! 3])
              else hs4000Loop tempTexts rest hs4000Lines))"

definition hs4000Content :: "images \<Rightarrow> TextFile list \<Rightarrow> jsstring" where
  "hs4000Content tempProcessed tempTexts =
     join (js ''\<newline>'') (hs4000Loop tempTexts (sortedImageKeys tempProcessed) [])"

section \<open>The environment\<close>

text \<open>
  JSON values as \<open>JSON.parse\<close> returns them. A number is the double it was read as: a
  rational, or an infinity for a literal beyond the range of doubles; \<open>NaN\<close> cannot be
  read from JSON.
\<close>

datatype jsnum = Finite rat | PosInfinity | NegInfinity

datatype json =
    JNull
  | JBool bool
  | JNum jsnum
  | JStr jsstring
  | JArr "json list"
  | JObj "(jsstring \<times> json) list"

datatype js_error = TypeError | SyntaxError | ServiceError

text \<open>A call that may throw; \<open>Throws\<close> carries the text of the exception.\<close>

datatype 'a outcome = Throws jsstring | Returns 'a

text \<open>
  The request to \<open>ai.models.generateContent\<close>: a model, the contents (one prompt string,
  or ordered parts of text and inline data) and the optional configuration.
\<close>

datatype part = TextPart jsstring | InlineData jsstring jsstring

datatype contents = Prompt jsstring | Parts "part list"

datatype config = NoConfig | ResponseMimeType jsstring | ImageConfig jsstring

record request =
  model :: jsstring
  contents :: contents
  config :: config

text \<open>
  What the code reads of a response: \<open>response.text\<close>, which may be \<open>undefined\<close>, and
  \<open>response.candidates?.[0]?.content?.parts\<close>, which may be \<open>undefined\<close>; of each part only
  \<open>p.inlineData?.data\<close> is read.
\<close>

record response =
  responseText :: "jsstring option"
  candidateParts :: "jsstring option list option"

text \<open>
  What the program takes from outside its source. \<open>JSON_parse\<close> is \<open>None\<close> where
  \<open>JSON.parse\<close> throws a SyntaxError. \<open>numberToString\<close> writes a number as the host
  prints it. \<open>localeCompare\<close> is the collation of the host's locale, \<open>toLowerCase\<close> its
  case mapping. The generative
  service answers a request as it likes; its answer may depend on the requests made
  before.
\<close>

record env =
  JSON_parse :: "jsstring \<Rightarrow> json option"
  numberToString :: "jsnum \<Rightarrow> jsstring"
  localeCompare :: "jsstring \<Rightarrow> jsstring \<Rightarrow> int"
  toLowerCase :: "jsstring \<Rightarrow> jsstring"
  service :: "request list \<Rightarrow> request \<Rightarrow> response outcome"

text \<open>
  \<open>await ai.models.generateContent(req)\<close>: the answer, and the trace of requests with
  this one added.
\<close>

definition generateContent ::
  "env \<Rightarrow> request list \<Rightarrow> request \<Rightarrow> response outcome \<times> request list" where
  "generateContent e trace req = (service e trace req, trace @ [req])"

text \<open>
  The conversion of a JSON value to a string, as a template literal and a property
  access \<open>obj[v]\<close> make it. A string is itself. An array is its elements joined with
  commas, \<open>null\<close> elements as the empty string. An object without an own property
  \<open>toString\<close> is \<open>[object Object]\<close>; with one, which is never callable in a parsed value,
  neither \<open>toString\<close> nor \<open>valueOf\<close> yields a primitive and the conversion throws a
  TypeError. Only the digits of a number are the host's.
\<close>

fun ToString :: "env \<Rightarrow> json \<Rightarrow> js_error + jsstring"
  and joinElements :: "env \<Rightarrow> json list \<Rightarrow> js_error + jsstring" where
  "ToString e JNull = Inr (js ''null'')"
| "ToString e (JBool b) = Inr (if b then js ''true'' else js ''false'')"
| "ToString e (JNum n) = Inr (numberToString e n)"
| "ToString e (JStr s) = Inr s"
| "ToString e (JArr xs) = joinElements e xs"
| "ToString e (JObj kvs) =
     (if map_of kvs (js ''toString'') = None then Inr (js ''[object Object]'')
      else Inl TypeError)"
| "joinElements e [] = Inr []"
| "joinElements e (x # xs) =
     (case (if x = JNull then Inr [] else ToString e x) of
        Inl err \<Rightarrow> Inl err
      | Inr s \<Rightarrow>
          (if xs = [] then Inr s
           else (case joinElements e xs of
                   Inl err \<Rightarrow> Inl err
                 | Inr t \<Rightarrow> Inr (s @ js '','' @ t))))"

section \<open>The service module (geminiService.ts)\<close>

subsection \<open>createCharacterBible\<close>

definition createCharacterBible_prompt :: "jsstring list \<Rightarrow> jsstring \<Rightarrow> jsstring" where
  "createCharacterBible_prompt filenames fullScript =
     js ''I am producing a high-stakes film. I need a master \"Character Bible\" for consistency.\<newline>'' @
     js ''    \<newline>'' @
     js ''    ASSET LIST (AVATARS): '' @
     join (js '', '') filenames @
     js ''\<newline>'' @
     js ''    \<newline>'' @
     js ''    FULL SCRIPT EXCERPT:\<newline>'' @
     js ''    '' @
     substring fullScript 0 15000 @
     js ''\<newline>'' @
     js ''    \<newline>'' @
     js ''    TASK:\<newline>'' @
     js ''    1. EXHAUSTIVE ANALYSIS: For every character in the script, define their visual blueprint: skin tone, hair texture, distinct facial features (sharp jaw, hooked nose, etc.), and their signature \"vibe\" (neurotic, imposing, deceptive).\<newline>'' @
     js ''    2. ASSET MAPPING: Map the provided filenames to these characters. Be logical. If 'avatar_boss.png' exists, it matches the 'Boss' character. \<newline>'' @
     js ''    3. STYLE KEY: Note their unique dialogue patterns to help infer physical performance.\<newline>'' @
     js ''    \<newline>'' @
     js ''    Format this as a technical production document for visual effects artists.''"




subsection \<open>analyzeSceneImage\<close>

definition analyzeSceneImage_prompt :: jsstring where
  "analyzeSceneImage_prompt =
     js ''DECONSTRUCT THIS FRAME: Describe the exact lighting setup (e.g., chiaroscuro, high-key), the camera lens feel, the character's current pose/silhouette, and the environment. Identify the exact emotional state of the character in the frame.''"

definition analyzeSceneImage_request :: "jsstring \<Rightarrow> jsstring \<Rightarrow> request" where
  "analyzeSceneImage_request b64 mime =
     \<lparr>model = js ''gemini-3-flash-preview'',
      contents = Parts [InlineData b64 mime, TextPart analyzeSceneImage_prompt],
      config = NoConfig\<rparr>"

definition analyzeSceneImage_result :: "response outcome \<Rightarrow> jsstring" where
  "analyzeSceneImage_result r =
     (case r of
        Returns resp \<Rightarrow> orDefault (responseText resp) (js ''Visual analysis unavailable.'')
      | Throws err \<Rightarrow> js ''Image analysis failed.'')"

definition analyzeSceneImage ::
  "env \<Rightarrow> request list \<Rightarrow> jsstring \<Rightarrow> jsstring \<Rightarrow> jsstring \<times> request list" where
  "analyzeSceneImage e trace b64 mime =
     (let (r, trace') = generateContent e trace (analyzeSceneImage_request b64 mime)
      in (analyzeSceneImage_result r, trace'))"

subsection \<open>identifyConsistentCharacter\<close>

definition identifyConsistentCharacter_prompt ::
  "jsstring \<Rightarrow> jsstring \<Rightarrow> jsstring \<Rightarrow> jsstring" where
  "identifyConsistentCharacter_prompt sceneText sceneVisualAnalysis characterBible =
     js ''[CROSS-REFERENCE REQUEST]\<newline>'' @
     js ''    \<newline>'' @
     js ''    CONTEXT:\<newline>'' @
     js ''    SCENE DIALOGUE/ACTION: \"'' @
     sceneText @
     js ''\"\<newline>'' @
     js ''    VISUAL DATA FROM ROUGH FRAME: \"'' @
     sceneVisualAnalysis @
     js ''\"\<newline>'' @
     js ''    \<newline>'' @
     js ''    MASTER BIBLE:\<newline>'' @
     js ''    '' @
     substring characterBible 0 8000 @
     js ''\<newline>'' @
     js ''    \<newline>'' @
     js ''    OUTPUT JSON ONLY:\<newline>'' @
     js ''    {\<newline>'' @
     js ''      \"characterName\": \"Who is the primary subject currently on screen?\",\<newline>'' @
     js ''      \"avatarFilename\": \"Which filename from the Bible represents this person?\",\<newline>'' @
     js ''      \"otherCharacters\": [\"Who else is in the scene contextually?\"],\<newline>'' @
     js ''      \"reasoning\": \"Brief technical justification.\"\<newline>'' @
     js ''    }''"

definition identifyConsistentCharacter_request ::
  "jsstring \<Rightarrow> jsstring \<Rightarrow> jsstring \<Rightarrow> request" where
  "identifyConsistentCharacter_request sceneText sceneVisualAnalysis characterBible =
     \<lparr>model = js ''gemini-3-flash-preview'',
      contents = Prompt (identifyConsistentCharacter_prompt sceneText sceneVisualAnalysis characterBible),
      config = ResponseMimeType (js ''application/json'')\<rparr>"

text \<open>
  The object the function returns. Its fields hold whatever the parsed response held
  (the value of \<open>JSON.parse\<close> has type \<open>any\<close>); \<open>otherCharacters\<close> is optional in the
  declared type, and \<open>None\<close> is the property left out.
\<close>

record mapping =
  characterName :: json
  avatarFilename :: json
  otherCharacters :: "json option"

text \<open>JavaScript truthiness of a JSON value.\<close>

fun truthy :: "json \<Rightarrow> bool" where
  "truthy JNull = False"
| "truthy (JBool b) = b"
| "truthy (JNum n) = (n \<noteq> Finite 0)"
| "truthy (JStr s) = (s \<noteq> [])"
| "truthy (JArr xs) = True"
| "truthy (JObj kvs) = True"

text \<open>
  \<open>result.k\<close> for one of the three property names the function reads, none of which is
  a property of a prototype: a TypeError on \<open>null\<close>, the own property of an object,
  \<open>undefined\<close> (\<open>None\<close>) on anything else.
\<close>

fun getProp :: "json \<Rightarrow> jsstring \<Rightarrow> js_error + json option" where
  "getProp JNull k = Inl TypeError"
| "getProp (JObj kvs) k = Inr (map_of kvs k)"
| "getProp (JBool b) k = Inr None"
| "getProp (JNum n) k = Inr None"
| "getProp (JStr s) k = Inr None"
| "getProp (JArr xs) k = Inr None"

text \<open>\<open>v || d\<close> on a value that may be \<open>undefined\<close>.\<close>

definition orElse :: "json option \<Rightarrow> json \<Rightarrow> json" where
  "orElse v d = (case v of None \<Rightarrow> d | Some x \<Rightarrow> (if truthy x then x else d))"

text \<open>The body of the \<open>try\<close> block, from the answer of the service on.\<close>

definition identifyConsistentCharacter_try :: "env \<Rightarrow> response outcome \<Rightarrow> js_error + mapping" where
  "identifyConsistentCharacter_try e r =
     (case r of
        Throws err \<Rightarrow> Inl ServiceError
      | Returns resp \<Rightarrow>
          (case JSON_parse e (orDefault (responseText resp) (js ''{}'')) of
             None \<Rightarrow> Inl SyntaxError
           | Some result \<Rightarrow>
               (case getProp result (js ''characterName'') of
                  Inl err \<Rightarrow> Inl err
                | Inr cn \<Rightarrow>
                    (case getProp result (js ''avatarFilename'') of
                       Inl err \<Rightarrow> Inl err
                     | Inr af \<Rightarrow>
                         (case getProp result (js ''otherCharacters'') of
                            Inl err \<Rightarrow> Inl err
                          | Inr oc \<Rightarrow>
                              Inr \<lparr>characterName = orElse cn (JStr (js ''Unknown'')),
                                   avatarFilename = orElse af JNull,
                                   otherCharacters = Some (orElse oc (JArr []))\<rparr>)))))"

text \<open>The \<open>try\<close> with its \<open>catch\<close>: what the function returns or throws.\<close>

definition identifyConsistentCharacter_result :: "env \<Rightarrow> response outcome \<Rightarrow> js_error + mapping" where
  "identifyConsistentCharacter_result e r =
     (case identifyConsistentCharacter_try e r of
        Inr m \<Rightarrow> Inr m
      | Inl err \<Rightarrow>
          Inr \<lparr>characterName = JStr (js ''Unknown''), avatarFilename = JNull,
               otherCharacters = None\<rparr>)"

definition identifyConsistentCharacter ::
  "env \<Rightarrow> request list \<Rightarrow> jsstring \<Rightarrow> jsstring \<Rightarrow> jsstring \<Rightarrow> (js_error + mapping) \<times> request list" where
  "identifyConsistentCharacter e trace sceneText sceneVisualAnalysis characterBible =
     (let (r, trace') = generateContent e trace
            (identifyConsistentCharacter_request sceneText sceneVisualAnalysis characterBible)
      in (identifyConsistentCharacter_result e r, trace'))"

subsection \<open>generateRejuvenatedPrompt\<close>

text \<open>The parameter \<open>otherCharacters\<close> is not used by the function.\<close>

definition generateRejuvenatedPrompt_prompt ::
  "jsstring \<Rightarrow> jsstring \<Rightarrow> jsstring \<Rightarrow> jsstring \<Rightarrow> jsstring \<Rightarrow> jsstring \<Rightarrow> jsstring option \<Rightarrow> jsstring" where
  "generateRejuvenatedPrompt_prompt sceneText characterName' bible style visualAnalysis fullScriptSnippet storyMap =
     js ''[CINEMATIC RECONSTRUCTION INSTRUCTION - NANO BANANA OPTIMIZED]\<newline>'' @
     js ''    \<newline>'' @
     js ''    STORY ENGINE DATA:\<newline>'' @
     js ''    - PLOT PROGRESSION: '' @
     orDefault storyMap (js ''Standard narrative arc.'') @
     js ''\<newline>'' @
     js ''    - CURRENT ACTION/DIALOGUE: '' @
     sceneText @
     js ''\<newline>'' @
     js ''    - FULL CONTEXT: '' @
     substring fullScriptSnippet 0 1500 @
     js ''\<newline>'' @
     js ''    \<newline>'' @
     js ''    VISUAL PARAMETERS:\<newline>'' @
     js ''    - TARGET IDENTITY: '' @
     characterName' @
     js '' (Reference Bible traits: '' @
     substring bible 0 1000 @
     js '')\<newline>'' @
     js ''    - ORIGINAL FRAME COMPOSITION: '' @
     visualAnalysis @
     js ''\<newline>'' @
     js ''    - REQUIRED STYLE: '' @
     style @
     js ''\<newline>'' @
     js ''    \<newline>'' @
     js ''    TASK: Write a prompt for a high-end image diffusion model (Gemini 2.5 Image).\<newline>'' @
     js ''    1. EMOTION INFERENCE: Determine the EXACT micro-expression required (e.g., \"twitching eye in repressed rage\", \"a cold, calculating smirk\").\<newline>'' @
     js ''    2. DESTRUCTIVE REPLACEMENT: Instruct the model to RECODE the face. Specify the skin texture, the light hitting the specific bone structure of '' @
     characterName' @
     js ''.\<newline>'' @
     js ''    3. CINEMATOGRAPHY: Force specific lens traits (e.g. \"Anamorphic bokeh, subtle halation, 35mm celluloid grit\").\<newline>'' @
     js ''    4. TONALITY: Match the 'action, tone, and emotion' of the script.\<newline>'' @
     js ''    \<newline>'' @
     js ''    Output ONLY the final prompt. No conversation.''"

definition generateRejuvenatedPrompt_request ::
  "jsstring \<Rightarrow> jsstring \<Rightarrow> jsstring \<Rightarrow> jsstring \<Rightarrow> jsstring \<Rightarrow> jsstring \<Rightarrow> jsstring option \<Rightarrow> request" where
  "generateRejuvenatedPrompt_request sceneText characterName' bible style visualAnalysis fullScriptSnippet storyMap =
     \<lparr>model = js ''gemini-3-pro-preview'',
      contents = Prompt (generateRejuvenatedPrompt_prompt sceneText characterName' bible style
                          visualAnalysis fullScriptSnippet storyMap),
      config = NoConfig\<rparr>"

text \<open>\<open>response.text?.trim() || "Masterpiece ..."\<close>, and the fixed string of the \<open>catch\<close>.\<close>

definition generateRejuvenatedPrompt_result :: "response outcome \<Rightarrow> jsstring" where
  "generateRejuvenatedPrompt_result r =
     (case r of
        Returns resp \<Rightarrow>
          orDefault (map_option trim (responseText resp))
            (js ''Masterpiece film frame, cinematic lighting, ultra-detailed characters.'')
      | Throws err \<Rightarrow> js ''Cinematic film frame, professional lighting.'')"

text \<open>
  The declared type of \<open>characterName\<close> is \<open>string\<close>, but the caller passes what the
  parsed response held. The template literal converts it before the \<open>try\<close> block is
  entered: a conversion that throws leaves the function without a request sent.
\<close>

definition generateRejuvenatedPrompt ::
  "env \<Rightarrow> request list \<Rightarrow> jsstring \<Rightarrow> json \<Rightarrow> json \<Rightarrow> jsstring \<Rightarrow> jsstring \<Rightarrow> jsstring \<Rightarrow>
   jsstring \<Rightarrow> jsstring option \<Rightarrow> (js_error + jsstring) \<times> request list" where
  "generateRejuvenatedPrompt e trace sceneText characterName' otherCharacters' bible style
     visualAnalysis fullScriptSnippet storyMap =
     (case ToString e characterName' of
        Inl err \<Rightarrow> (Inl err, trace)
      | Inr who \<Rightarrow>
          (let (r, trace') = generateContent e trace
                 (generateRejuvenatedPrompt_request sceneText who bible style visualAnalysis
                    fullScriptSnippet storyMap)
           in (Inr (generateRejuvenatedPrompt_result r), trace')))"

subsection \<open>generateRevisedImage\<close>

text \<open>
  \<open>avatarBase64 && avatarMime\<close>: a \<open>string | null\<close> is truthy when it is neither \<open>null\<close>
  nor the empty string.
\<close>

definition present :: "jsstring option \<Rightarrow> bool" where
  "present v = (case v of None \<Rightarrow> False | Some s \<Rightarrow> s \<noteq> [])"

definition generateRevisedImage_instruction :: "jsstring \<Rightarrow> jsstring" where
  "generateRevisedImage_instruction prompt =
     js ''TASK: CINEMATIC RE-RENDER.\<newline>'' @
     js ''           - Enhance the following image based on this style: '' @
     prompt @
     js ''\<newline>'' @
     js ''           - OUTPUT: A single, high-fidelity, color film frame.''"

definition generateRevisedImage_parts ::
  "jsstring \<Rightarrow> jsstring option \<Rightarrow> jsstring option \<Rightarrow> jsstring \<Rightarrow> jsstring \<Rightarrow> part list" where
  "generateRevisedImage_parts prompt avatarBase64 avatarMime sceneBase64 sceneMime =
     (if present avatarBase64 \<and> present avatarMime
      then [TextPart (js ''[PROMPT] '' @ prompt),
            TextPart (js ''\<newline>\<newline>[INSTRUCTION] This is an IDENTITY TRANSPLANT. Use the AVATAR image as the *only* source for the person's identity. Use the SCENE image for pose, lighting, and composition. Replace the person in the SCENE with the person from the AVATAR.''),
            TextPart (js ''\<newline>\<newline>AVATAR (Identity Source):''),
            InlineData (the avatarBase64) (the avatarMime),
            TextPart (js ''\<newline>\<newline>SCENE (Composition Source):''),
            InlineData sceneBase64 sceneMime]
      else [TextPart (generateRevisedImage_instruction prompt),
            InlineData sceneBase64 sceneMime])"

definition generateRevisedImage_request ::
  "jsstring \<Rightarrow> jsstring option \<Rightarrow> jsstring option \<Rightarrow> jsstring \<Rightarrow> jsstring \<Rightarrow> jsstring \<Rightarrow> request" where
  "generateRevisedImage_request prompt avatarBase64 avatarMime sceneBase64 sceneMime aspectRatio =
     \<lparr>model = js ''gemini-2.5-flash-image'',
      contents = Parts (generateRevisedImage_parts prompt avatarBase64 avatarMime sceneBase64 sceneMime),
      config = ImageConfig aspectRatio\<rparr>"

text \<open>The loop over the parts of the answer: the first part with inline data that is not empty.\<close>

fun firstInlineData :: "jsstring option list \<Rightarrow> jsstring option" where
  "firstInlineData [] = None"
| "firstInlineData (p # ps) = (if present p then p else firstInlineData ps)"

definition generateRevisedImage_result :: "response outcome \<Rightarrow> jsstring option" where
  "generateRevisedImage_result r =
     (case r of
        Returns resp \<Rightarrow>
          (case candidateParts resp of
             None \<Rightarrow> None
           | Some partsOut \<Rightarrow> firstInlineData partsOut)
      | Throws err \<Rightarrow> None)"

text \<open>The only caller leaves \<open>aspectRatio\<close> out, so the default \<open>'16:9'\<close> is sent.\<close>

definition generateRevisedImage ::
  "env \<Rightarrow> request list \<Rightarrow> jsstring \<Rightarrow> jsstring option \<Rightarrow> jsstring option \<Rightarrow> jsstring \<Rightarrow> jsstring \<Rightarrow>
   jsstring option \<times> request list" where
  "generateRevisedImage e trace prompt avatarBase64 avatarMime sceneBase64 sceneMime =
     (let (r, trace') = generateContent e trace
            (generateRevisedImage_request prompt avatarBase64 avatarMime sceneBase64 sceneMime
               (js ''16:9''))
      in (generateRevisedImage_result r, trace'))"

section \<open>The component (App)\<close>

datatype stage = IDLE | ANALYZING | PROCESSING | COMPLETE

text \<open>
  \<open>RejuvenatedItem\<close>: the fields \<open>base64\<close> and \<open>prompt\<close> of the source are \<open>imageBase64\<close> and
  \<open>promptText\<close> here (\<open>base64\<close> is a field of \<open>SourceImage\<close> already).
\<close>

record RejuvenatedItem =
  originalName :: jsstring
  newName :: jsstring
  imageBase64 :: jsstring
  promptText :: jsstring

text \<open>A call \<open>downloadFile(data, filename, isBase64)\<close>.\<close>

datatype download = Download jsstring jsstring bool

text \<open>
  The state of the component: its \<open>useState\<close> variables, and the two effects that leave
  it, the files handed to the browser (\<open>downloads\<close>) and the requests sent to the
  generative service (\<open>trace\<close>). A log entry is the message; the time of day that
  \<open>addLog\<close> writes before it is left out.
\<close>

record App =
  stage :: stage
  isUploading :: bool
  status :: jsstring
  logs :: "jsstring list"
  error :: "jsstring option"
  avatars :: images
  processedImages :: images
  textFiles :: "TextFile list"
  fullScript :: "TextFile option"
  storyMap :: "TextFile option"
  style :: jsstring
  characterBible :: jsstring
  results :: "RejuvenatedItem list"
  downloads :: "download list"
  trace :: "request list"

definition initialApp :: App where
  "initialApp =
     \<lparr>stage = IDLE, isUploading = False, status = js ''SYSTEM_READY'', logs = [],
      error = None, avatars = [], processedImages = [], textFiles = [], fullScript = None,
      storyMap = None,
      style = js ''cinematic film grain, high-key lighting, vibrant reds and deep blacks.'',
      characterBible = [], results = [], downloads = [], trace = []\<rparr>"

definition addLog :: "jsstring \<Rightarrow> App \<Rightarrow> App" where
  "addLog msg st = st\<lparr>logs := logs st @ [msg]\<rparr>"

definition downloadFile :: "jsstring \<Rightarrow> jsstring \<Rightarrow> bool \<Rightarrow> App \<Rightarrow> App" where
  "downloadFile data filename isBase64 st =
     st\<lparr>downloads := downloads st @ [Download data filename isBase64]\<rparr>"

text \<open>A natural number in a template literal: its decimal digits.\<close>

fun showNat :: "nat \<Rightarrow> jsstring" where
  "showNat n =
     (if n < 10 then [of_nat (48 + n)]
      else showNat (n div 10) @ [of_nat (48 + n mod 10)])"

subsection \<open>handleUpload\<close>

text \<open>
  What the unpacking of the chosen archives leaves in the three local variables of
  \<open>handleUpload\<close> when it gets as far as the script assembler.
\<close>

record assets =
  tempAvatars :: images
  tempProcessed :: images
  tempTexts :: "TextFile list"


subsection \<open>runAnalysis\<close>


subsection \<open>processProductionRun\<close>




text \<open>\<open>tFile.content.split('\n').slice(3).join('\n')\<close>.\<close>

definition sceneTextSnippet :: "TextFile \<Rightarrow> jsstring" where
  "sceneTextSnippet tFile = join (js ''\<newline>'') (drop 3 (js_split 0xA (content tFile)))"

text \<open>The context window around the place of the snippet in the assembled script.\<close>

definition scriptContext :: "TextFile option \<Rightarrow> jsstring \<Rightarrow> jsstring" where
  "scriptContext script snippet =
     (case script of
        None \<Rightarrow> []
      | Some fs \<Rightarrow>
          (let snippetStart = substring snippet 0 40;
               index = indexOf (content fs) snippetStart
           in if index \<noteq> - 1
              then substring (content fs) (max 0 (index - 1000))
                     (min (int (length (content fs))) (index + 3000))
              else []))"

text \<open>
  A value that is an object, \<open>undefined\<close> or \<open>null\<close>, and \<open>v?.f\<close> on it.
\<close>

datatype 'a jsref = Undefined | Null | Ref 'a

definition optField :: "'a jsref \<Rightarrow> ('a \<Rightarrow> jsstring) \<Rightarrow> jsstring option" where
  "optField v f = (case v of Ref a \<Rightarrow> Some (f a) | Undefined \<Rightarrow> None | Null \<Rightarrow> None)"

definition orNull :: "jsstring option \<Rightarrow> jsstring option" where
  "orNull v = (case v of None \<Rightarrow> None | Some s \<Rightarrow> (if s = [] then None else Some s))"

text \<open>
  \<open>mapping.avatarFilename ? avatars[mapping.avatarFilename] : null\<close>. The property access
  converts a truthy \<open>avatarFilename\<close> to its key, which may throw. A key the object does
  not hold reads as \<open>undefined\<close>, or as a member of \<open>Object.prototype\<close>, which has neither
  a \<open>base64\<close> nor a \<open>mimeType\<close> and so reads like \<open>undefined\<close> below.
\<close>

definition selectAvatar :: "env \<Rightarrow> images \<Rightarrow> mapping \<Rightarrow> js_error + SourceImage jsref" where
  "selectAvatar e avs m =
     (if truthy (avatarFilename m)
      then (case ToString e (avatarFilename m) of
              Inl err \<Rightarrow> Inl err
            | Inr k \<Rightarrow>
                (case map_of avs k of
                   None \<Rightarrow> Inr Undefined
                 | Some a \<Rightarrow> Inr (Ref a)))
      else Inr Null)"

text \<open>An error in a template literal, by its name; its message is left out.\<close>

fun showError :: "js_error \<Rightarrow> jsstring" where
  "showError TypeError = js ''TypeError''"
| "showError SyntaxError = js ''SyntaxError''"
| "showError ServiceError = js ''Error''"

text \<open>The \<open>catch\<close> of a turn of the loop: the error is logged, with the requests sent so far.\<close>

definition caught :: "SourceImage \<Rightarrow> js_error \<Rightarrow> request list \<Rightarrow> App \<Rightarrow> App" where
  "caught img err sent st =
     addLog (js ''CRITICAL ERROR ['' @ fileName img @ js '']: '' @ showError err)
       (st\<lparr>trace := sent\<rparr>)"

text \<open>
  One turn of the loop for the frame \<open>img\<close> at index \<open>i\<close> of \<open>frameCount\<close> frames. The
  state variables read here are those of the render in which the run started; the turn
  changes none of them. Inside the \<open>try\<close> block three steps can throw: the lookup of the
  avatar, the template literal of the prompt synthesizer, and the template literal of
  the metadata file; each converts a field of the mapping to a string.
\<close>

definition processFrame :: "env \<Rightarrow> nat \<Rightarrow> nat \<Rightarrow> SourceImage \<Rightarrow> App \<Rightarrow> App" where
  "processFrame e frameCount i img st =
     (let b = base (fileName img)
      in case findTextFile (textFiles st) b of
           None \<Rightarrow> addLog (js ''SKIPPING: '' @ fileName img @ js '' (NO CONTEXT)'') st
         | Some tFile \<Rightarrow>
             (let snippet = sceneTextSnippet tFile;
                  localContext = scriptContext (fullScript st) snippet;
                  st1 = st\<lparr>status := js ''PROCESS: ['' @ showNat (i + 1) @ js ''/'' @
                                       showNat frameCount @ js ''] - '' @ fileName img\<rparr>;
                  (visualAnalysis, t1) =
                     analyzeSceneImage e (trace st1) (base64 img) (mimeType img);
                  (identified, t2) =
                     identifyConsistentCharacter e t1 snippet visualAnalysis (characterBible st1)
              in case identified of
                   Inl err \<Rightarrow> caught img err t2 st1
                 | Inr m \<Rightarrow>
                     (case selectAvatar e (avatars st1) m of
                        Inl err \<Rightarrow> caught img err t2 st1
                      | Inr avatar \<Rightarrow>
                          (let (synthesized, t3) =
                                  generateRejuvenatedPrompt e t2 snippet (characterName m)
                                    (orElse (otherCharacters m) (JArr [])) (characterBible st1)
                                    (style st1) visualAnalysis localContext
                                    (orNull (map_option content (storyMap st1)))
                           in case synthesized of
                                Inl err \<Rightarrow> caught img err t3 st1
                              | Inr p \<Rightarrow>
                                  (let (gen, t4) =
                                          generateRevisedImage e t3 p (orNull (optField avatar base64))
                                            (orNull (optField avatar mimeType)) (base64 img)
                                            (mimeType img);
                                       st2 = st1\<lparr>trace := t4\<rparr>
                                   in case orNull gen of
                                        None \<Rightarrow>
                                          addLog (js ''REVISION FAILED FOR '' @ fileName img @
                                                  js ''. SKIPPING.'') st2
                                      | Some revised \<Rightarrow>
                                          (case ToString e (characterName m) of
                                             Inl err \<Rightarrow> caught img err t4 st1
                                           | Inr who \<Rightarrow>
                                               (let result =
                                                       \<lparr>originalName = fileName img,
                                                        newName = b @ js ''_rejuvenated.png'',
                                                        imageBase64 = revised, promptText = p\<rparr>;
                                                    metaContent =
                                                       js ''ORIGINAL: '' @ fileName img @
                                                       js ''\<newline>CHARACTER: '' @ who @
                                                       js ''\<newline>PROMPT: '' @ p @
                                                       js ''\<newline>\<newline>SCENE DATA:\<newline>'' @
                                                       content tFile;
                                                    st3 = downloadFile revised (newName result) True
                                                            (downloadFile metaContent
                                                               (b @ js ''_meta.txt'') False st2)
                                                in addLog (js ''DOWNLOADED: '' @ newName result)
                                                     (st3\<lparr>results := results st3 @ [result]\<rparr>))))))))"



subsection \<open>The automation effect\<close>


section \<open>The specification's reading of the base identifier\<close>

text \<open>
  The specification derives the base identifier of a frame name "by stripping the
  extension (text up to the last \<open>.\<close>)". This is that reading, to be compared with \<open>base\<close>:
  a name without a dot is its own base identifier.
\<close>

definition upToLastDot :: "jsstring \<Rightarrow> jsstring" where
  "upToLastDot s =
     (if 0x2E \<in> set s then rev (tl (dropWhile (\<lambda>c. c \<noteq> 0x2E) (rev s))) else s)"

section \<open>Example inputs\<close>

text \<open>
  One environment for the examples. Its collation compares letters without regard to
  case first and puts a lower-case letter before its capital, as the collations of
  browsers do for ASCII names, so \<open>"a.png"\<close> comes before \<open>"B.png"\<close>. Its parser reads the
  five JSON texts the examples use and rejects any other text; the examples give it no
  other JSON text, and they convert no number to a string. Its generative service is
  out of reach: every call throws.
\<close>

definition asciiLower :: "code_unit \<Rightarrow> code_unit" where
  "asciiLower c = (if 0x41 \<le> c \<and> c \<le> 0x5A then c + 0x20 else c)"

definition caseFirstCompare :: "jsstring \<Rightarrow> jsstring \<Rightarrow> int" where
  "caseFirstCompare a b =
     (if map asciiLower a < map asciiLower b then - 1
      else if map asciiLower b < map asciiLower a then 1
      else if b < a then - 1
      else if a < b then 1
      else 0)"

definition exampleParse :: "jsstring \<Rightarrow> json option" where
  "exampleParse s =
     (if s = js ''{}'' then Some (JObj [])
      else if s = js ''null'' then Some JNull
      else if s = js ''{\"avatarFilename\":\"ghost.png\"}''
        then Some (JObj [(js ''avatarFilename'', JStr (js ''ghost.png''))])
      else if s = js ''{\"avatarFilename\":\"hero.png\"}''
        then Some (JObj [(js ''avatarFilename'', JStr (js ''hero.png''))])
      else if s = js ''{\"avatarFilename\":{\"toString\":1}}''
        then Some (JObj [(js ''avatarFilename'', JObj [(js ''toString'', JNum (Finite 1))])])
      else None)"

definition exampleEnv :: env where
  "exampleEnv =
     \<lparr>JSON_parse = exampleParse,
      numberToString = (\<lambda>n. js ''0''),
      localeCompare = caseFirstCompare,
      toLowerCase = map asciiLower,
      service = (\<lambda>trace req. Throws (js ''Failed to fetch''))\<rparr>"



text \<open>
  A frame with its text asset, whose line at index 3 is two spaces; the assets of an
  upload that holds just this frame; and a state in which the frame's text asset is
  loaded and the one known avatar is \<open>hero.png\<close>, as the unpacking files it.
\<close>

definition frame1 :: SourceImage where
  "frame1 = \<lparr>fileName = js ''f1.png'', base64 = js ''QQ=='', mimeType = js ''image/png''\<rparr>"

definition frame1Text :: TextFile where
  "frame1Text = \<lparr>name = js ''f1.txt'', content = js ''a\<newline>b\<newline>c\<newline>  ''\<rparr>"


definition heroApp :: App where
  "heroApp =
     initialApp
       \<lparr>textFiles := [frame1Text],
        avatars := [extractedImage (js ''hero.png'') (js ''png'') (js ''SA=='')]\<rparr>"



definition ghostAnswer :: response where
  "ghostAnswer =
     \<lparr>responseText = Some (js ''{\"avatarFilename\":\"ghost.png\"}''), candidateParts = None\<rparr>"

definition heroAnswer :: response where
  "heroAnswer =
     \<lparr>responseText = Some (js ''{\"avatarFilename\":\"hero.png\"}''), candidateParts = None\<rparr>"

definition objectAnswer :: response where
  "objectAnswer =
     \<lparr>responseText = Some (js ''{\"avatarFilename\":{\"toString\":1}}''), candidateParts = None\<rparr>"

definition answeringEnv :: "response \<Rightarrow> env" where
  "answeringEnv answer = exampleEnv\<lparr>service := (\<lambda>trace req. Returns answer)\<rparr>"

text \<open>A script of 5,001 code units with the letter \<open>X\<close> at position 1,500 and nowhere else.\<close>

definition longScript :: TextFile where
  "longScript =
     \<lparr>name = js ''hs4000.txt'',
      content = replicate 1500 0x61 @ js ''X'' @ replicate 3500 0x62\<rparr>"

section \<open>Properties of the string functions\<close>

lemma js_split_not_Nil: "js_split sep s \<noteq> []"
  by (induction s) (auto split: list.splits)

lemma hd_js_split: "hd (js_split sep s) = takeWhile (\<lambda>c. c \<noteq> sep) s"
  by (induction s) (auto split: list.splits simp: js_split_not_Nil)

lemma shift_js_split: "shift (js_split sep s) = Some (takeWhile (\<lambda>c. c \<noteq> sep) s)"
  using js_split_not_Nil [of sep s] hd_js_split [of sep s]
  by (cases "js_split sep s") (auto simp: shift_def)

lemma orDefault_Nil: "orDefault (Some s) [] = s"
  by (simp add: orDefault_def)

lemma base_takeWhile: "base imageKey = takeWhile (\<lambda>c. c \<noteq> 0x2E) imageKey"
  by (simp add: base_def shift_js_split orDefault_Nil js_def)

lemma substring_0: "0 \<le> n \<Longrightarrow> substring s 0 n = take (nat n) s"
  by (auto simp: substring_def Let_def min_def max_def)

lemma substring_clamped:
  "0 \<le> a \<Longrightarrow> a \<le> b \<Longrightarrow> b \<le> int (length s) \<Longrightarrow>
   substring s a b = take (nat b - nat a) (drop (nat a) s)"
  by (auto simp: substring_def Let_def min_def max_def nat_diff_distrib)

lemma take_drop_nth:
  "hi \<le> length xs \<Longrightarrow> take (hi - lo) (drop lo xs) = map ((!) xs) [lo..<hi]"
proof (rule nth_equalityI)
  assume le: "hi \<le> length xs"
  show len: "length (take (hi - lo) (drop lo xs)) = length (map ((!) xs) [lo..<hi])"
    using le by simp
  fix i assume "i < length (take (hi - lo) (drop lo xs))"
  then have i: "i < hi - lo" using le by simp
  then have "take (hi - lo) (drop lo xs) ! i = xs ! (lo + i)"
    using le by simp
  moreover have "map ((!) xs) [lo..<hi] ! i = xs ! (lo + i)"
    using i by simp
  ultimately show "take (hi - lo) (drop lo xs) ! i = map ((!) xs) [lo..<hi] ! i" by simp
qed

text \<open>\<open>indexOf\<close> returns the first position at which the needle starts, and \<open>-1\<close> only when it starts nowhere.\<close>

lemma indexOfFrom_found:
  "P \<le> length hay \<Longrightarrow> prefix needle (drop P hay) \<Longrightarrow>
   (\<forall>j<P. \<not> prefix needle (drop j hay)) \<Longrightarrow> indexOfFrom needle hay k = int (k + P)"
proof (induction hay arbitrary: k P)
  case Nil
  then show ?case by simp
next
  case (Cons c cs)
  show ?case
  proof (cases P)
    case 0
    with Cons.prems show ?thesis by simp
  next
    case (Suc P')
    from Cons.prems(3) Suc have "\<not> prefix needle (c # cs)"
      by (metis drop0 zero_less_Suc)
    moreover have "indexOfFrom needle cs (Suc k) = int (Suc k + P')"
    proof (rule Cons.IH)
      show "P' \<le> length cs" using Cons.prems(1) Suc by simp
      show "prefix needle (drop P' cs)" using Cons.prems(2) Suc by simp
      show "\<forall>j<P'. \<not> prefix needle (drop j cs)"
      proof (intro allI impI)
        fix j assume "j < P'"
        then have "Suc j < P" using Suc by simp
        with Cons.prems(3) have "\<not> prefix needle (drop (Suc j) (c # cs))" by blast
        then show "\<not> prefix needle (drop j cs)" by simp
      qed
    qed
    ultimately show ?thesis using Suc by simp
  qed
qed

lemma indexOfFrom_absent:
  "(\<forall>j\<le>length hay. \<not> prefix needle (drop j hay)) \<Longrightarrow> indexOfFrom needle hay k = - 1"
proof (induction hay arbitrary: k)
  case Nil
  then show ?case by simp
next
  case (Cons c cs)
  from Cons.prems have "\<not> prefix needle (c # cs)"
    by (metis drop0 le0)
  moreover have "\<forall>j\<le>length cs. \<not> prefix needle (drop j cs)"
  proof (intro allI impI)
    fix j assume "j \<le> length cs"
    then have "Suc j \<le> length (c # cs)" by simp
    with Cons.prems have "\<not> prefix needle (drop (Suc j) (c # cs))" by blast
    then show "\<not> prefix needle (drop j cs)" by simp
  qed
  ultimately show ?case using Cons.IH by simp
qed


section \<open>The script assembler\<close>

text \<open>The loop pushes, frame by frame, what each frame contributes.\<close>

lemma hs4000Loop_acc:
  "hs4000Loop texts keys acc =
     acc @ concat (map (\<lambda>imageKey.
       case find (\<lambda>t. prefix (base imageKey) (name t) \<and> suffix (js ''.txt'') (name t)) texts of
         None \<Rightarrow> []
       | Some tFile \<Rightarrow>
           if 4 \<le> length (js_split 0xA (content tFile))
           then [js_split 0xA (content tFile) ! 3] else []) keys)"
  by (induction keys arbitrary: acc)
     (simp_all add: findTextFile_def startsWith_def endsWith_def Let_def split: option.splits)

text \<open>
  Claim C1. For every uploaded asset set, the assembled script is the newline-joined
  list obtained by going through the frame names in sorted order and taking, for each
  frame, the line at index 3 of its matching text asset (the first text asset whose name
  starts with the frame's base identifier and ends in \<open>.txt\<close>) when that asset has at
  least 4 lines; a text asset with fewer than 4 lines contributes no line, and a frame
  without a matching text asset is skipped. The frame names gone through are the keys of
  the frame map, each as often as it is a key, in ascending order.
\<close>

theorem assembled_script_sorted_fourth_lines:
  "hs4000Content imgs texts =
     join (js ''\<newline>'')
       (concat (map (\<lambda>imageKey.
          case find (\<lambda>t. prefix (base imageKey) (name t) \<and> suffix (js ''.txt'') (name t)) texts of
            None \<Rightarrow> []
          | Some tFile \<Rightarrow>
              if 4 \<le> length (js_split 0xA (content tFile))
              then [js_split 0xA (content tFile) ! 3] else [])
        (sortedImageKeys imgs))) \<and>
   sorted (sortedImageKeys imgs) \<and>
   mset (sortedImageKeys imgs) = mset (Object_keys imgs)"
  by (simp add: hs4000Content_def sortedImageKeys_def hs4000Loop_acc)

section \<open>The order of the frames\<close>











section \<open>The base identifier\<close>

text \<open>
  Claim C5, as stated: the base identifier of a frame name is the text of the name up to
  its last dot. It fails on a name with two dots: the code keeps the text before the
  first dot, \<open>shot\<close> of \<open>shot.v2.png\<close>, where the text up to the last dot is \<open>shot.v2\<close>.
\<close>

theorem base_is_not_up_to_last_dot:
  "base (js ''shot.v2.png'') = js ''shot'' \<and> upToLastDot (js ''shot.v2.png'') = js ''shot.v2''"
  by (simp add: base_takeWhile upToLastDot_def js_def)

text \<open>
  Claim C5, amended. For every frame name, the base identifier used to find its text
  asset is the text of the name before its first dot, the whole name when it has no dot.
  The script assembler and the per-frame processing both look the text asset up with
  \<open>findTextFile texts (base name)\<close>, which is the first text asset whose name starts with
  that text and ends in \<open>.txt\<close>.
\<close>

theorem base_is_text_before_first_dot:
  "base imageKey = takeWhile (\<lambda>c. c \<noteq> 0x2E) imageKey \<and>
   findTextFile texts (base imageKey) =
     find (\<lambda>t. prefix (takeWhile (\<lambda>c. c \<noteq> 0x2E) imageKey) (name t) \<and>
               suffix (js ''.txt'') (name t)) texts"
  by (simp add: base_takeWhile findTextFile_def startsWith_def endsWith_def)

text \<open>On a name with at most one dot the two readings give the same base identifier.\<close>

lemma base_agrees_with_upToLastDot:
  assumes "length (filter (\<lambda>c. c = 0x2E) k) \<le> 1"
  shows "base k = upToLastDot k"
proof (cases "0x2E \<in> set k")
  case False
  then show ?thesis by (auto simp: base_takeWhile upToLastDot_def takeWhile_eq_all_conv)
next
  case True
  then obtain a r where k: "k = a @ 0x2E # r" and a: "0x2E \<notin> set a"
    by (meson split_list_first)
  have r: "0x2E \<notin> set r"
  proof
    assume "0x2E \<in> set r"
    then have "filter (\<lambda>c. c = 0x2E) r \<noteq> []" by (simp add: filter_empty_conv)
    then have "1 \<le> length (filter (\<lambda>c. c = 0x2E) r)" by (cases "filter (\<lambda>c. c = 0x2E) r") auto
    then show False using assms k by simp
  qed
  have "takeWhile (\<lambda>c. c \<noteq> 0x2E) (a @ 0x2E # r) = a @ takeWhile (\<lambda>c. c \<noteq> 0x2E) (0x2E # r)"
    using a by (intro takeWhile_append2) auto
  then have "base k = a" by (simp add: base_takeWhile k)
  moreover have "dropWhile (\<lambda>c. c \<noteq> 0x2E) (rev r @ 0x2E # rev a) = 0x2E # rev a"
    using r by (subst dropWhile_append2) auto
  then have "upToLastDot k = a" using True by (simp add: upToLastDot_def k)
  ultimately show ?thesis by simp
qed

section \<open>The context window\<close>

lemma length_substring_le:
  "int (length (substring s a b)) \<le>
     \<bar>max 0 (min b (int (length s))) - max 0 (min a (int (length s)))\<bar>"
proof -
  have "length (substring s a b) \<le>
          nat (max (max 0 (min a (int (length s)))) (max 0 (min b (int (length s)))) -
               min (max 0 (min a (int (length s)))) (max 0 (min b (int (length s)))))"
    unfolding substring_def Let_def by (rule order_trans [OF eq_refl [OF length_take]]) simp
  then show ?thesis by (simp add: min_def max_def split: if_splits)
qed

lemma window_bound:
  fixes idx len :: int
  shows "\<bar>max 0 (min (min len (idx + 3000)) len) - max 0 (min (max 0 (idx - 1000)) len)\<bar> \<le> 4000"
  by (simp add: min_def max_def)

lemma scriptContext_length: "length (scriptContext script snippet) \<le> 4000"
proof (cases script)
  case None
  then show ?thesis by (simp add: scriptContext_def)
next
  case (Some fs)
  let ?idx = "indexOf (content fs) (substring snippet 0 40)"
  let ?len = "int (length (content fs))"
  have "int (length (substring (content fs) (max 0 (?idx - 1000)) (min ?len (?idx + 3000)))) \<le> 4000"
    using length_substring_le [of "content fs" "max 0 (?idx - 1000)" "min ?len (?idx + 3000)"]
      window_bound [of ?len ?idx] by linarith
  then show ?thesis using Some by (simp add: scriptContext_def Let_def)
qed

text \<open>The two cases of the search for the anchor.\<close>

lemma scriptContext_found:
  assumes "P \<le> length (content fs)"
    and "prefix (take 40 snippet) (drop P (content fs))"
    and "\<forall>j<P. \<not> prefix (take 40 snippet) (drop j (content fs))"
  shows "scriptContext (Some fs) snippet =
           map ((!) (content fs)) [P - 1000 ..< min (length (content fs)) (P + 3000)]"
proof -
  let ?script = "content fs"
  have idx: "indexOf ?script (take 40 snippet) = int P"
    using assms indexOfFrom_found [of P ?script "take 40 snippet" 0] by (simp add: indexOf_def)
  have "substring ?script (max 0 (int P - 1000)) (min (int (length ?script)) (int P + 3000)) =
        take (nat (min (int (length ?script)) (int P + 3000)) - nat (max 0 (int P - 1000)))
          (drop (nat (max 0 (int P - 1000))) ?script)"
    using assms(1) by (intro substring_clamped) auto
  also have "nat (max 0 (int P - 1000)) = P - 1000" by auto
  also have "nat (min (int (length ?script)) (int P + 3000)) = min (length ?script) (P + 3000)"
    by auto
  finally show ?thesis
    using idx by (simp add: scriptContext_def substring_0 Let_def take_drop_nth)
qed

lemma scriptContext_absent:
  assumes "\<forall>j\<le>length (content fs). \<not> prefix (take 40 snippet) (drop j (content fs))"
  shows "scriptContext (Some fs) snippet = []"
proof -
  have "indexOf (content fs) (take 40 snippet) = - 1"
    using assms indexOfFrom_absent [of "content fs" "take 40 snippet" 0] by (simp add: indexOf_def)
  then show ?thesis by (simp add: scriptContext_def substring_0 Let_def)
qed

text \<open>A window of 4,000 code units: the anchor stands at position 1,500 of a script of 5,001.\<close>

lemma scriptContext_longScript: "length (scriptContext (Some longScript) (js ''X'')) = 4000"
proof -
  let ?rest = "js ''X'' @ replicate 3500 (0x62 :: code_unit)"
  have c: "content longScript = replicate 1500 0x61 @ ?rest"
    by (simp add: longScript_def)
  have anchor: "take 40 (js ''X'') = [0x58]" by (simp add: js_def)
  have len: "length (content longScript) = 5001" by (simp add: c js_def)
  have here: "prefix (take 40 (js ''X'')) (drop 1500 (content longScript))"
    by (simp add: c anchor js_def)
  have before: "\<forall>j<1500. \<not> prefix (take 40 (js ''X'')) (drop j (content longScript))"
  proof (intro allI impI)
    fix j :: nat assume "j < 1500"
    then obtain n where n: "1500 - j = Suc n" by (cases "1500 - j") auto
    have "drop j (content longScript) = replicate (1500 - j) 0x61 @ ?rest"
      using \<open>j < 1500\<close> by (simp add: c)
    then show "\<not> prefix (take 40 (js ''X'')) (drop j (content longScript))"
      by (simp add: n anchor)
  qed
  have "scriptContext (Some longScript) (js ''X'') =
          map ((!) (content longScript)) [1500 - 1000 ..< min (length (content longScript)) (1500 + 3000)]"
    using here before by (intro scriptContext_found) (simp_all add: len)
  then show ?thesis by (simp add: len)
qed

text \<open>
  Claim C4. For every assembled script and scene snippet, the anchor is the first 40
  code units of the snippet. When the anchor first occurs in the script at position
  \<open>P\<close> (it starts there, and at no earlier position), the context is the script from
  index \<open>P - 1000\<close>, or 0 when that is negative, up to index \<open>P + 3000\<close>, or the end of
  the script when that is beyond it; like the bounds of \<open>substring\<close>, the upper index is
  not included, and every index read is inside the script. When the anchor occurs
  nowhere, or there is no assembled script, the context is the empty string; no case
  fails.
\<close>

theorem scriptContext_window:
  "scriptContext None snippet = [] \<and>
   (P \<le> length (content fs) \<and> prefix (take 40 snippet) (drop P (content fs)) \<and>
    (\<forall>j<P. \<not> prefix (take 40 snippet) (drop j (content fs))) \<longrightarrow>
      scriptContext (Some fs) snippet =
        map ((!) (content fs)) [P - 1000 ..< min (length (content fs)) (P + 3000)]) \<and>
   ((\<forall>j\<le>length (content fs). \<not> prefix (take 40 snippet) (drop j (content fs))) \<longrightarrow>
      scriptContext (Some fs) snippet = [])"
proof (intro conjI impI)
  show "scriptContext None snippet = []" by (simp add: scriptContext_def)
next
  assume "P \<le> length (content fs) \<and> prefix (take 40 snippet) (drop P (content fs)) \<and>
    (\<forall>j<P. \<not> prefix (take 40 snippet) (drop j (content fs)))"
  then show "scriptContext (Some fs) snippet =
        map ((!) (content fs)) [P - 1000 ..< min (length (content fs)) (P + 3000)]"
    by (intro scriptContext_found) simp_all
next
  assume "\<forall>j\<le>length (content fs). \<not> prefix (take 40 snippet) (drop j (content fs))"
  then show "scriptContext (Some fs) snippet = []" by (rule scriptContext_absent)
qed

theorem scriptContext_window_witness:
  "scriptContext (Some \<lparr>name = js ''hs4000.txt'', content = js ''abcdef''\<rparr>) (js ''cd'') =
     js ''abcdef'' \<and>
   scriptContext (Some \<lparr>name = js ''hs4000.txt'', content = js ''abcdef''\<rparr>) (js ''xy'') = []"
proof -
  let ?fs = "\<lparr>name = js ''hs4000.txt'', content = js ''abcdef''\<rparr>"
  have "\<forall>j<2. \<not> prefix (take 40 (js ''cd'')) (drop j (content ?fs))"
  proof (intro allI impI)
    fix j :: nat assume "j < 2"
    then have "j = 0 \<or> j = 1" by arith
    then show "\<not> prefix (take 40 (js ''cd'')) (drop j (content ?fs))"
      by (auto simp: js_def)
  qed
  then have found: "2 \<le> length (content ?fs) \<and>
      prefix (take 40 (js ''cd'')) (drop 2 (content ?fs)) \<and>
      (\<forall>j<2. \<not> prefix (take 40 (js ''cd'')) (drop j (content ?fs)))"
    by (simp add: js_def)
  have absent: "\<forall>j\<le>length (content ?fs). \<not> prefix (take 40 (js ''xy'')) (drop j (content ?fs))"
  proof (intro allI impI)
    fix j assume "j \<le> length (content ?fs)"
    then have "j \<in> {0, 1, 2, 3, 4, 5, 6}" by (auto simp: js_def)
    then show "\<not> prefix (take 40 (js ''xy'')) (drop j (content ?fs))"
      by (auto simp: js_def)
  qed
  have w: "map ((!) (content ?fs)) [2 - 1000 ..< min (length (content ?fs)) (2 + 3000)] =
             js ''abcdef''"
    by (simp add: js_def)
  from scriptContext_window [of "js ''cd''" 2 ?fs] found w
  have "scriptContext (Some ?fs) (js ''cd'') = js ''abcdef''" by simp
  moreover from scriptContext_window [of "js ''xy''" 2 ?fs] absent
  have "scriptContext (Some ?fs) (js ''xy'') = []" by blast
  ultimately show ?thesis by simp
qed

section \<open>The truncation caps\<close>

text \<open>
  Claim C6. For every input, the bible excerpt embedded into the identifier prompt has
  at most 8,000 code units, the script excerpt embedded into the bible-builder prompt at
  most 15,000, and the bible excerpt embedded into the prompt-synthesizer prompt at most
  1,000. Each prompt is its fixed text, its other insertions and that excerpt, so its
  length is the sum of their lengths.
\<close>

theorem truncation_caps:
  "length (substring bible 0 8000) \<le> 8000 \<and>
   length (identifyConsistentCharacter_prompt sceneText visual bible) =
     453 + length sceneText + length visual + length (substring bible 0 8000) \<and>
   length (substring script 0 15000) \<le> 15000 \<and>
   length (createCharacterBible_prompt filenames script) =
     722 + length (join (js '', '') filenames) + length (substring script 0 15000) \<and>
   length (substring bible 0 1000) \<le> 1000 \<and>
   length (generateRejuvenatedPrompt_prompt sceneText who bible look visual window plot) =
     925 + length (orDefault plot (js ''Standard narrative arc.'')) + length sceneText +
     length (substring window 0 1500) + 2 * length who + length (substring bible 0 1000) +
     length visual + length look"
proof -
  have "length (identifyConsistentCharacter_prompt sceneText visual bible) =
     453 + length sceneText + length visual + length (substring bible 0 8000)"
    by (simp add: identifyConsistentCharacter_prompt_def js_def)
  moreover have "length (createCharacterBible_prompt filenames script) =
     722 + length (join (js '', '') filenames) + length (substring script 0 15000)"
    by (simp add: createCharacterBible_prompt_def js_def)
  moreover have "length (generateRejuvenatedPrompt_prompt sceneText who bible look visual window plot) =
     925 + length (orDefault plot (js ''Standard narrative arc.'')) + length sceneText +
     length (substring window 0 1500) + 2 * length who + length (substring bible 0 1000) +
     length visual + length look"
    by (simp add: generateRejuvenatedPrompt_prompt_def js_def)
  ultimately show ?thesis by (simp add: substring_0)
qed

text \<open>
  Claim C10. For every per-frame prompt-synthesis call, the localized script context
  embedded into the synthesizer prompt has at most 1,500 code units, while the context
  window may have up to 4,000, and has 4,000 for some scripts: the embedded text is the
  first 1,500 code units of the window, and the prompt and the request that carries it
  are the same as for the window cut to them.
\<close>

theorem localized_context_cut_to_1500:
  "length (scriptContext script snippet) \<le> 4000 \<and>
   length (scriptContext (Some longScript) (js ''X'')) = 4000 \<and>
   substring (scriptContext script snippet) 0 1500 = take 1500 (scriptContext script snippet) \<and>
   length (substring (scriptContext script snippet) 0 1500) \<le> 1500 \<and>
   generateRejuvenatedPrompt_prompt sceneText who bible look visual (scriptContext script snippet) plot =
     generateRejuvenatedPrompt_prompt sceneText who bible look visual
       (take 1500 (scriptContext script snippet)) plot \<and>
   generateRejuvenatedPrompt_request sceneText who bible look visual (scriptContext script snippet) plot =
     generateRejuvenatedPrompt_request sceneText who bible look visual
       (take 1500 (scriptContext script snippet)) plot"
  by (simp add: scriptContext_length scriptContext_longScript substring_0
        generateRejuvenatedPrompt_prompt_def generateRejuvenatedPrompt_request_def)

section \<open>The empty script\<close>

lemma stage_addLog [simp]: "stage (addLog msg st) = stage st"
  by (simp add: addLog_def)

lemma fullScript_addLog [simp]: "fullScript (addLog msg st) = fullScript st"
  by (simp add: addLog_def)

lemma trace_addLog [simp]: "trace (addLog msg st) = trace st"
  by (simp add: addLog_def)

lemma trace_downloadFile [simp]: "trace (downloadFile d f b st) = trace st"
  by (simp add: downloadFile_def)

lemma stage_downloadFile [simp]: "stage (downloadFile d f b st) = stage st"
  by (simp add: downloadFile_def)

lemma fullScript_downloadFile [simp]: "fullScript (downloadFile d f b st) = fullScript st"
  by (simp add: downloadFile_def)





section \<open>The character identifier\<close>




section \<open>The avatar of a frame\<close>

text \<open>The identifier returns a mapping whatever the service answers.\<close>

lemma identify_returns: "\<exists>m. identifyConsistentCharacter_result e r = Inr m"
  by (simp add: identifyConsistentCharacter_result_def split: sum.splits)

lemma trace_caught [simp]: "trace (caught img err sent st) = sent"
  by (simp add: caught_def)

text \<open>
  The four requests of a frame whose text asset is found and whose mapping can be
  converted where the turn needs it, in the order in which they are sent: the visual
  analysis, the identification, the prompt synthesis and the image generation, each
  built from the answers to those before it.
\<close>

lemma processFrame_trace:
  fixes e :: env and st :: App and img :: SourceImage and tFile :: TextFile and m :: mapping
    and who :: jsstring
  defines "snippet \<equiv> sceneTextSnippet tFile"
  defines "r1 \<equiv> analyzeSceneImage_request (base64 img) (mimeType img)"
  defines "va \<equiv> analyzeSceneImage_result (service e (trace st) r1)"
  defines "r2 \<equiv> identifyConsistentCharacter_request snippet va (characterBible st)"
  defines "r3 \<equiv> generateRejuvenatedPrompt_request snippet who
                    (characterBible st) (style st) va (scriptContext (fullScript st) snippet)
                    (orNull (map_option content (storyMap st)))"
  defines "p \<equiv> generateRejuvenatedPrompt_result (service e (trace st @ [r1, r2]) r3)"
  assumes tf: "findTextFile (textFiles st) (base (fileName img)) = Some tFile"
    and m: "identifyConsistentCharacter_result e (service e (trace st @ [r1]) r2) = Inr m"
    and sel: "selectAvatar e (avatars st) m = Inr avatar"
    and who: "ToString e (characterName m) = Inr who"
  shows "trace (processFrame e n i img st) =
           trace st @ [r1, r2, r3,
             generateRevisedImage_request p
               (orNull (optField avatar base64)) (orNull (optField avatar mimeType))
               (base64 img) (mimeType img) (js ''16:9'')]"
  using tf m sel who
  unfolding snippet_def r1_def va_def r2_def r3_def p_def
  by (simp add: processFrame_def Let_def analyzeSceneImage_def identifyConsistentCharacter_def
        generateRejuvenatedPrompt_def generateRevisedImage_def generateContent_def
        split: option.splits)

text \<open>
  Where the lookup of the avatar throws, the turn ends in its \<open>catch\<close> after the first
  two requests: the error is logged and no prompt or image is asked for.
\<close>

lemma processFrame_thrown:
  fixes e :: env and st :: App and img :: SourceImage and tFile :: TextFile and m :: mapping
  defines "snippet \<equiv> sceneTextSnippet tFile"
  defines "r1 \<equiv> analyzeSceneImage_request (base64 img) (mimeType img)"
  defines "va \<equiv> analyzeSceneImage_result (service e (trace st) r1)"
  defines "r2 \<equiv> identifyConsistentCharacter_request snippet va (characterBible st)"
  assumes tf: "findTextFile (textFiles st) (base (fileName img)) = Some tFile"
    and m: "identifyConsistentCharacter_result e (service e (trace st @ [r1]) r2) = Inr m"
    and sel: "selectAvatar e (avatars st) m = Inl err"
  shows "trace (processFrame e n i img st) = trace st @ [r1, r2] \<and>
         logs (processFrame e n i img st) =
           logs st @ [js ''CRITICAL ERROR ['' @ fileName img @ js '']: '' @ showError err]"
  using tf m sel
  unfolding snippet_def r1_def va_def r2_def
  by (simp add: processFrame_def Let_def analyzeSceneImage_def identifyConsistentCharacter_def
        generateContent_def caught_def addLog_def)

lemma selectAvatar_unknown:
  assumes "avatarFilename m = JNull \<or>
           (\<exists>k. ToString e (avatarFilename m) = Inr k \<and> k \<notin> set (Object_keys avs))"
  shows "selectAvatar e avs m = Inr Null \<or> selectAvatar e avs m = Inr Undefined"
proof (cases "truthy (avatarFilename m)")
  case False
  then show ?thesis by (simp add: selectAvatar_def)
next
  case True
  then have "avatarFilename m \<noteq> JNull" by auto
  with assms obtain k where k: "ToString e (avatarFilename m) = Inr k" "k \<notin> set (Object_keys avs)"
    by blast
  then have "map_of avs k = None" by (simp add: Object_keys_def map_of_eq_None_iff)
  with k True show ?thesis by (simp add: selectAvatar_def)
qed

lemma selectAvatar_thrown:
  assumes "truthy (avatarFilename m)" and "ToString e (avatarFilename m) = Inl err"
  shows "selectAvatar e avs m = Inl err"
  using assms by (simp add: selectAvatar_def)

text \<open>The example frame in the example state, and what the identifier makes of an answer that gives only an \<open>avatarFilename\<close>.\<close>

lemma identified_answer:
  assumes "JSON_parse e (orDefault (responseText answer) (js ''{}'')) =
             Some (JObj [(js ''avatarFilename'', v)])" and "truthy v"
  shows "identifyConsistentCharacter_result e (Returns answer) =
           Inr \<lparr>characterName = JStr (js ''Unknown''), avatarFilename = v,
                otherCharacters = Some (JArr [])\<rparr>"
proof -
  have "map_of [(js ''avatarFilename'', v)] (js ''characterName'') = None \<and>
        map_of [(js ''avatarFilename'', v)] (js ''avatarFilename'') = Some v \<and>
        map_of [(js ''avatarFilename'', v)] (js ''otherCharacters'') = None"
    by (simp add: js_def)
  with assms show ?thesis
    by (simp add: identifyConsistentCharacter_result_def identifyConsistentCharacter_try_def
          orElse_def)
qed

lemma answeringEnv_service: "service (answeringEnv answer) t r = Returns answer"
  by (simp add: answeringEnv_def exampleEnv_def)

lemma answeringEnv_parse: "JSON_parse (answeringEnv answer) = exampleParse"
  by (simp add: answeringEnv_def exampleEnv_def)

lemma frame1_text: "findTextFile (textFiles heroApp) (base (fileName frame1)) = Some frame1Text"
  by (simp add: heroApp_def initialApp_def frame1_def frame1Text_def base_takeWhile
        findTextFile_def startsWith_def endsWith_def suffix_def js_def)

lemma heroApp_fresh: "trace heroApp = [] \<and> logs heroApp = []"
  by (simp add: heroApp_def initialApp_def)

text \<open>
  Claim C8, as stated: for every identifier result whose \<open>avatarFilename\<close> is \<open>null\<close> or
  is not a key of the known avatars, the image generator is invoked with no avatar and
  no error occurs in the caller. It fails for an \<open>avatarFilename\<close> that cannot be
  converted to a property key. The response \<open>{"avatarFilename":{"toString":1}}\<close> gives the
  mapping an object with an own property \<open>toString\<close>; it is no key of the avatars, the
  access \<open>avatars[mapping.avatarFilename]\<close> throws a TypeError, the frame's \<open>catch\<close> logs
  it, and the frame has sent its two requests to the text model and none to the image
  generator.
\<close>

theorem unconvertible_avatarFilename_skips_generator:
  "identifyConsistentCharacter_result (answeringEnv objectAnswer) (Returns objectAnswer) =
     Inr \<lparr>characterName = JStr (js ''Unknown''),
          avatarFilename = JObj [(js ''toString'', JNum (Finite 1))],
          otherCharacters = Some (JArr [])\<rparr> \<and>
   Object_keys (avatars heroApp) = [js ''hero.png''] \<and>
   map model (trace (processFrame (answeringEnv objectAnswer) 1 0 frame1 heroApp)) =
     [js ''gemini-3-flash-preview'', js ''gemini-3-flash-preview''] \<and>
   logs (processFrame (answeringEnv objectAnswer) 1 0 frame1 heroApp) =
     [js ''CRITICAL ERROR [f1.png]: TypeError'']"
proof -
  let ?e = "answeringEnv objectAnswer"
  let ?m = "\<lparr>characterName = JStr (js ''Unknown''),
             avatarFilename = JObj [(js ''toString'', JNum (Finite 1))],
             otherCharacters = Some (JArr [])\<rparr>"
  have parsed: "JSON_parse ?e (orDefault (responseText objectAnswer) (js ''{}'')) =
                  Some (JObj [(js ''avatarFilename'', JObj [(js ''toString'', JNum (Finite 1))])])"
    by (simp add: answeringEnv_parse exampleParse_def objectAnswer_def orDefault_def js_def)
  have m: "identifyConsistentCharacter_result ?e (Returns objectAnswer) = Inr ?m"
    using parsed by (intro identified_answer) simp_all
  have sel: "selectAvatar ?e (avatars heroApp) ?m = Inl TypeError"
    by (simp add: selectAvatar_def)
  note thrown = processFrame_thrown [of heroApp frame1 frame1Text ?e ?m TypeError 1 0,
      OF frame1_text, unfolded answeringEnv_service, OF m sel]
  have keys: "Object_keys (avatars heroApp) = [js ''hero.png'']"
    by (simp add: heroApp_def initialApp_def Object_keys_def extractedImage_def)
  from thrown have "map model (trace (processFrame ?e 1 0 frame1 heroApp)) =
     [js ''gemini-3-flash-preview'', js ''gemini-3-flash-preview'']"
    by (simp add: heroApp_fresh analyzeSceneImage_request_def identifyConsistentCharacter_request_def)
  moreover from thrown have "logs (processFrame ?e 1 0 frame1 heroApp) =
     [js ''CRITICAL ERROR [f1.png]: TypeError'']"
    by (simp add: heroApp_fresh frame1_def js_def)
  ultimately show ?thesis using m keys by simp
qed

text \<open>
  Claim C8, amended. For every identifier result whose \<open>avatarFilename\<close> is \<open>null\<close>, or
  converts to a property key that is not a key of the known avatars, and whose
  \<open>characterName\<close> converts to a string, the image generator is invoked with both avatar
  arguments \<open>null\<close>: the frame sends its four requests, the last of them the generator's
  with the payload of the path without avatar, and nothing is thrown in the caller.
  For an identifier result whose \<open>avatarFilename\<close> is truthy and cannot be converted to a
  property key, the lookup throws; the frame's \<open>catch\<close> logs the error after the first
  two requests, and the generator is not invoked for that frame.
\<close>

theorem unknown_avatar_falls_back:
  fixes e :: env and st :: App and img :: SourceImage and tFile :: TextFile and m :: mapping
    and who :: jsstring
  defines "snippet \<equiv> sceneTextSnippet tFile"
  defines "r1 \<equiv> analyzeSceneImage_request (base64 img) (mimeType img)"
  defines "va \<equiv> analyzeSceneImage_result (service e (trace st) r1)"
  defines "r2 \<equiv> identifyConsistentCharacter_request snippet va (characterBible st)"
  defines "r3 \<equiv> generateRejuvenatedPrompt_request snippet who
                    (characterBible st) (style st) va (scriptContext (fullScript st) snippet)
                    (orNull (map_option content (storyMap st)))"
  defines "p \<equiv> generateRejuvenatedPrompt_result (service e (trace st @ [r1, r2]) r3)"
  assumes tf: "findTextFile (textFiles st) (base (fileName img)) = Some tFile"
    and m: "identifyConsistentCharacter_result e (service e (trace st @ [r1]) r2) = Inr m"
  shows "((avatarFilename m = JNull \<or>
           (\<exists>k. ToString e (avatarFilename m) = Inr k \<and> k \<notin> set (Object_keys (avatars st)))) \<and>
          ToString e (characterName m) = Inr who \<longrightarrow>
            trace (processFrame e n i img st) =
              trace st @ [r1, r2, r3,
                generateRevisedImage_request p None None (base64 img) (mimeType img) (js ''16:9'')] \<and>
            contents (generateRevisedImage_request p None None (base64 img) (mimeType img) (js ''16:9'')) =
              Parts [TextPart (generateRevisedImage_instruction p),
                     InlineData (base64 img) (mimeType img)]) \<and>
         (truthy (avatarFilename m) \<and> ToString e (avatarFilename m) = Inl err \<longrightarrow>
            trace (processFrame e n i img st) = trace st @ [r1, r2] \<and>
            logs (processFrame e n i img st) =
              logs st @ [js ''CRITICAL ERROR ['' @ fileName img @ js '']: '' @ showError err])"
proof (intro conjI impI)
  assume h: "(avatarFilename m = JNull \<or>
           (\<exists>k. ToString e (avatarFilename m) = Inr k \<and> k \<notin> set (Object_keys (avatars st)))) \<and>
          ToString e (characterName m) = Inr who"
  then obtain avatar where sel: "selectAvatar e (avatars st) m = Inr avatar"
    and none: "avatar = Null \<or> avatar = Undefined"
    using selectAvatar_unknown [of m e "avatars st"] by blast
  have args: "orNull (optField avatar f) = None" for f :: "SourceImage \<Rightarrow> jsstring"
    using none by (auto simp: optField_def orNull_def)
  from h have who: "ToString e (characterName m) = Inr who" by simp
  show "trace (processFrame e n i img st) =
              trace st @ [r1, r2, r3,
                generateRevisedImage_request p None None (base64 img) (mimeType img) (js ''16:9'')]"
    using processFrame_trace [OF tf _ sel who, of n i] m
    unfolding snippet_def r1_def va_def r2_def r3_def p_def by (simp add: args)
  show "contents (generateRevisedImage_request p None None (base64 img) (mimeType img) (js ''16:9'')) =
              Parts [TextPart (generateRevisedImage_instruction p),
                     InlineData (base64 img) (mimeType img)]"
    by (simp add: generateRevisedImage_request_def generateRevisedImage_parts_def present_def)
next
  assume "truthy (avatarFilename m) \<and> ToString e (avatarFilename m) = Inl err"
  then have sel: "selectAvatar e (avatars st) m = Inl err" by (simp add: selectAvatar_thrown)
  from processFrame_thrown [OF tf _ sel, of n i] m
  have both: "trace (processFrame e n i img st) = trace st @ [r1, r2] \<and>
         logs (processFrame e n i img st) =
           logs st @ [js ''CRITICAL ERROR ['' @ fileName img @ js '']: '' @ showError err]"
    unfolding snippet_def r1_def va_def r2_def by simp
  then show "trace (processFrame e n i img st) = trace st @ [r1, r2]" by simp
  from both show "logs (processFrame e n i img st) =
           logs st @ [js ''CRITICAL ERROR ['' @ fileName img @ js '']: '' @ showError err]" by simp
qed


theorem unknown_avatar_falls_back_witness:
  "length (trace (processFrame (answeringEnv ghostAnswer) 1 0 frame1 heroApp)) = 4 \<and>
   (\<exists>p. contents (last (trace (processFrame (answeringEnv ghostAnswer) 1 0 frame1 heroApp))) =
          Parts [TextPart (generateRevisedImage_instruction p),
                 InlineData (js ''QQ=='') (js ''image/png'')]) \<and>
   length (trace (processFrame (answeringEnv objectAnswer) 1 0 frame1 heroApp)) = 2"
proof -
  let ?g = "answeringEnv ghostAnswer"
  let ?mg = "\<lparr>characterName = JStr (js ''Unknown''), avatarFilename = JStr (js ''ghost.png''),
              otherCharacters = Some (JArr [])\<rparr>"
  have "JSON_parse ?g (orDefault (responseText ghostAnswer) (js ''{}'')) =
          Some (JObj [(js ''avatarFilename'', JStr (js ''ghost.png''))])"
    by (simp add: answeringEnv_parse exampleParse_def ghostAnswer_def orDefault_def js_def)
  then have mg: "identifyConsistentCharacter_result ?g (Returns ghostAnswer) = Inr ?mg"
    by (intro identified_answer) (simp_all add: js_def)
  have unknown: "(avatarFilename ?mg = JNull \<or>
           (\<exists>k. ToString ?g (avatarFilename ?mg) = Inr k \<and> k \<notin> set (Object_keys (avatars heroApp)))) \<and>
          ToString ?g (characterName ?mg) = Inr (js ''Unknown'')"
    by (simp add: heroApp_def initialApp_def Object_keys_def extractedImage_def js_def)
  note fb = unknown_avatar_falls_back [of heroApp frame1 frame1Text ?g ?mg "js ''Unknown''" 1 0 TypeError,
      OF frame1_text, unfolded answeringEnv_service, OF mg]
  have img: "base64 frame1 = js ''QQ=='' \<and> mimeType frame1 = js ''image/png''"
    by (simp add: frame1_def)
  from fb unknown have "length (trace (processFrame ?g 1 0 frame1 heroApp)) = 4"
    by (simp add: heroApp_fresh)
  moreover from fb unknown have "\<exists>p. contents (last (trace (processFrame ?g 1 0 frame1 heroApp))) =
          Parts [TextPart (generateRevisedImage_instruction p),
                 InlineData (js ''QQ=='') (js ''image/png'')]"
    by (simp add: heroApp_fresh img) blast
  moreover have "length (trace (processFrame (answeringEnv objectAnswer) 1 0 frame1 heroApp)) = 2"
  proof -
    let ?o = "answeringEnv objectAnswer"
    let ?mo = "\<lparr>characterName = JStr (js ''Unknown''),
                avatarFilename = JObj [(js ''toString'', JNum (Finite 1))],
                otherCharacters = Some (JArr [])\<rparr>"
    have "JSON_parse ?o (orDefault (responseText objectAnswer) (js ''{}'')) =
            Some (JObj [(js ''avatarFilename'', JObj [(js ''toString'', JNum (Finite 1))])])"
      by (simp add: answeringEnv_parse exampleParse_def objectAnswer_def orDefault_def js_def)
    then have mo: "identifyConsistentCharacter_result ?o (Returns objectAnswer) = Inr ?mo"
      by (intro identified_answer) simp_all
    have thrown: "truthy (avatarFilename ?mo) \<and> ToString ?o (avatarFilename ?mo) = Inl TypeError"
      by simp
    from unknown_avatar_falls_back [of heroApp frame1 frame1Text ?o ?mo "js ''Unknown''" 1 0 TypeError,
      OF frame1_text, unfolded answeringEnv_service, OF mo] thrown
    show ?thesis by (simp add: heroApp_fresh)
  qed
  ultimately show ?thesis by simp
qed

section \<open>The payload of the image generator\<close>

text \<open>The two payloads of \<open>generateRevisedImage\<close>, by its guard \<open>avatarBase64 && avatarMime\<close>.\<close>

lemma generateRevisedImage_parts_cases:
  "(ab = Some a \<and> a \<noteq> [] \<and> am = Some mt \<and> mt \<noteq> [] \<longrightarrow>
      generateRevisedImage_parts p ab am sb sm =
        [TextPart (js ''[PROMPT] '' @ p),
         TextPart (js ''\<newline>\<newline>[INSTRUCTION] This is an IDENTITY TRANSPLANT. Use the AVATAR image as the *only* source for the person's identity. Use the SCENE image for pose, lighting, and composition. Replace the person in the SCENE with the person from the AVATAR.''),
         TextPart (js ''\<newline>\<newline>AVATAR (Identity Source):''),
         InlineData a mt,
         TextPart (js ''\<newline>\<newline>SCENE (Composition Source):''),
         InlineData sb sm]) \<and>
   (ab = None \<or> ab = Some [] \<or> am = None \<or> am = Some [] \<longrightarrow>
      generateRevisedImage_parts p ab am sb sm =
        [TextPart (js ''TASK: CINEMATIC RE-RENDER.\<newline>'' @
                   js ''           - Enhance the following image based on this style: '' @ p @
                   js ''\<newline>'' @
                   js ''           - OUTPUT: A single, high-fidelity, color film frame.''),
         InlineData sb sm])"
  by (auto simp: generateRevisedImage_parts_def present_def generateRevisedImage_instruction_def)

lemma extractedImage_mimeType: "mimeType (snd (extractedImage nm ext data)) \<noteq> []"
  by (simp add: extractedImage_def js_def)

lemma selectAvatar_Ref:
  assumes "selectAvatar e avs m = Inr (Ref x)"
  shows "x \<in> snd ` set avs"
proof -
  from assms obtain k where "map_of avs k = Some x"
    by (auto simp: selectAvatar_def split: if_splits sum.splits option.splits)
  then have "(k, x) \<in> set avs" by (rule map_of_SomeD)
  then show ?thesis by force
qed

text \<open>
  The production run passes both avatar arguments through \<open>|| null\<close>: an argument of its
  that is not \<open>null\<close> is not empty either.
\<close>

lemma present_orNull: "present (orNull v) = (orNull v \<noteq> None)"
  by (simp add: present_def orNull_def split: option.splits)

text \<open>
  Claim C9. The image generator is called from one place, the turn of the production
  run for a frame, with the avatar data \<open>avatar?.base64 || null\<close> and the avatar media
  type \<open>avatar?.mimeType || null\<close> of an avatar that is one of the known avatars, filed as
  the unpacking files images, or is \<open>undefined\<close> or \<open>null\<close>. For every such call made with
  a non-null avatar, the payload parts are, in this order, the prompt text, the
  identity-transplant instruction, the avatar label, the avatar image, the scene label
  and the scene image; for every such call without an avatar the payload is the
  cinematic re-render instruction followed by the scene image.
\<close>

theorem payload_parts_order:
  fixes e :: env and st :: App and img :: SourceImage and tFile :: TextFile and m :: mapping
    and who :: jsstring and avatar :: "SourceImage jsref"
  defines "snippet \<equiv> sceneTextSnippet tFile"
  defines "r1 \<equiv> analyzeSceneImage_request (base64 img) (mimeType img)"
  defines "va \<equiv> analyzeSceneImage_result (service e (trace st) r1)"
  defines "r2 \<equiv> identifyConsistentCharacter_request snippet va (characterBible st)"
  defines "r3 \<equiv> generateRejuvenatedPrompt_request snippet who
                    (characterBible st) (style st) va (scriptContext (fullScript st) snippet)
                    (orNull (map_option content (storyMap st)))"
  defines "p \<equiv> generateRejuvenatedPrompt_result (service e (trace st @ [r1, r2]) r3)"
  defines "ab \<equiv> orNull (optField avatar base64)"
  defines "am \<equiv> orNull (optField avatar mimeType)"
  defines "r4 \<equiv> generateRevisedImage_request p ab am (base64 img) (mimeType img) (js ''16:9'')"
  assumes tf: "findTextFile (textFiles st) (base (fileName img)) = Some tFile"
    and m: "identifyConsistentCharacter_result e (service e (trace st @ [r1]) r2) = Inr m"
    and sel: "selectAvatar e (avatars st) m = Inr avatar"
    and who: "ToString e (characterName m) = Inr who"
    and unpacked: "\<forall>entry\<in>set (avatars st). \<exists>nm ext data. entry = extractedImage nm ext data"
  shows "trace (processFrame e n i img st) = trace st @ [r1, r2, r3, r4] \<and>
         (\<forall>a. ab = Some a \<longrightarrow>
            (\<exists>mt. am = Some mt \<and>
               contents r4 =
                 Parts [TextPart (js ''[PROMPT] '' @ p),
                        TextPart (js ''\<newline>\<newline>[INSTRUCTION] This is an IDENTITY TRANSPLANT. Use the AVATAR image as the *only* source for the person's identity. Use the SCENE image for pose, lighting, and composition. Replace the person in the SCENE with the person from the AVATAR.''),
                        TextPart (js ''\<newline>\<newline>AVATAR (Identity Source):''),
                        InlineData a mt,
                        TextPart (js ''\<newline>\<newline>SCENE (Composition Source):''),
                        InlineData (base64 img) (mimeType img)])) \<and>
         (ab = None \<longrightarrow>
            contents r4 =
              Parts [TextPart (js ''TASK: CINEMATIC RE-RENDER.\<newline>'' @
                               js ''           - Enhance the following image based on this style: '' @ p @
                               js ''\<newline>'' @
                               js ''           - OUTPUT: A single, high-fidelity, color film frame.''),
                     InlineData (base64 img) (mimeType img)])"
proof (intro conjI allI impI)
  show "trace (processFrame e n i img st) = trace st @ [r1, r2, r3, r4]"
    using processFrame_trace [OF tf _ sel who, of n i] m
    unfolding snippet_def r1_def va_def r2_def r3_def p_def r4_def ab_def am_def by simp
next
  fix a assume a: "ab = Some a"
  then obtain x where x: "avatar = Ref x" and bx: "base64 x = a" and a_ne: "a \<noteq> []"
    unfolding ab_def by (cases avatar) (auto simp: optField_def orNull_def split: if_splits)
  from sel x have "x \<in> snd ` set (avatars st)" by (auto dest: selectAvatar_Ref)
  then obtain entry where entry: "entry \<in> set (avatars st)" "x = snd entry" by blast
  with unpacked obtain nm ext data where "entry = extractedImage nm ext data" by blast
  with entry have "x = snd (extractedImage nm ext data)" by simp
  then have mt: "mimeType x \<noteq> []" by (simp add: extractedImage_mimeType)
  then have am: "am = Some (mimeType x)"
    unfolding am_def by (simp add: x optField_def orNull_def)
  have "contents r4 =
          Parts [TextPart (js ''[PROMPT] '' @ p),
                 TextPart (js ''\<newline>\<newline>[INSTRUCTION] This is an IDENTITY TRANSPLANT. Use the AVATAR image as the *only* source for the person's identity. Use the SCENE image for pose, lighting, and composition. Replace the person in the SCENE with the person from the AVATAR.''),
                 TextPart (js ''\<newline>\<newline>AVATAR (Identity Source):''),
                 InlineData a (mimeType x),
                 TextPart (js ''\<newline>\<newline>SCENE (Composition Source):''),
                 InlineData (base64 img) (mimeType img)]"
    using generateRevisedImage_parts_cases [of ab a am "mimeType x" p "base64 img" "mimeType img"]
      a am a_ne mt
    unfolding r4_def by (simp add: generateRevisedImage_request_def)
  with am show "\<exists>mt. am = Some mt \<and>
               contents r4 =
                 Parts [TextPart (js ''[PROMPT] '' @ p),
                        TextPart (js ''\<newline>\<newline>[INSTRUCTION] This is an IDENTITY TRANSPLANT. Use the AVATAR image as the *only* source for the person's identity. Use the SCENE image for pose, lighting, and composition. Replace the person in the SCENE with the person from the AVATAR.''),
                        TextPart (js ''\<newline>\<newline>AVATAR (Identity Source):''),
                        InlineData a mt,
                        TextPart (js ''\<newline>\<newline>SCENE (Composition Source):''),
                        InlineData (base64 img) (mimeType img)]"
    by blast
next
  assume "ab = None"
  then show "contents r4 =
              Parts [TextPart (js ''TASK: CINEMATIC RE-RENDER.\<newline>'' @
                               js ''           - Enhance the following image based on this style: '' @ p @
                               js ''\<newline>'' @
                               js ''           - OUTPUT: A single, high-fidelity, color film frame.''),
                     InlineData (base64 img) (mimeType img)]"
    using generateRevisedImage_parts_cases [of ab "[]" am "[]" p "base64 img" "mimeType img"]
    unfolding r4_def by (simp add: generateRevisedImage_request_def)
qed


theorem payload_parts_order_witness:
  "length (trace (processFrame (answeringEnv heroAnswer) 1 0 frame1 heroApp)) = 4 \<and>
   (\<exists>p. contents (last (trace (processFrame (answeringEnv heroAnswer) 1 0 frame1 heroApp))) =
      Parts [TextPart (js ''[PROMPT] '' @ p),
             TextPart (js ''\<newline>\<newline>[INSTRUCTION] This is an IDENTITY TRANSPLANT. Use the AVATAR image as the *only* source for the person's identity. Use the SCENE image for pose, lighting, and composition. Replace the person in the SCENE with the person from the AVATAR.''),
             TextPart (js ''\<newline>\<newline>AVATAR (Identity Source):''),
             InlineData (js ''SA=='') (js ''image/png''),
             TextPart (js ''\<newline>\<newline>SCENE (Composition Source):''),
             InlineData (js ''QQ=='') (js ''image/png'')]) \<and>
   (\<exists>p. contents (last (trace (processFrame (answeringEnv ghostAnswer) 1 0 frame1 heroApp))) =
      Parts [TextPart (js ''TASK: CINEMATIC RE-RENDER.\<newline>'' @
                       js ''           - Enhance the following image based on this style: '' @ p @
                       js ''\<newline>'' @
                       js ''           - OUTPUT: A single, high-fidelity, color film frame.''),
             InlineData (js ''QQ=='') (js ''image/png'')])"
proof -
  let ?hero = "\<lparr>fileName = js ''hero.png'', base64 = js ''SA=='', mimeType = js ''image/png''\<rparr>"
  have avs: "avatars heroApp = [(js ''hero.png'', ?hero)]"
    by (simp add: heroApp_def initialApp_def extractedImage_def js_def)
  have unpacked: "\<forall>entry\<in>set (avatars heroApp). \<exists>nm ext data. entry = extractedImage nm ext data"
    by (auto simp: heroApp_def initialApp_def)
  have img: "base64 frame1 = js ''QQ=='' \<and> mimeType frame1 = js ''image/png''"
    by (simp add: frame1_def)
  let ?h = "answeringEnv heroAnswer"
  let ?mh = "\<lparr>characterName = JStr (js ''Unknown''), avatarFilename = JStr (js ''hero.png''),
              otherCharacters = Some (JArr [])\<rparr>"
  have "JSON_parse ?h (orDefault (responseText heroAnswer) (js ''{}'')) =
          Some (JObj [(js ''avatarFilename'', JStr (js ''hero.png''))])"
    by (simp add: answeringEnv_parse exampleParse_def heroAnswer_def orDefault_def js_def)
  then have mh: "identifyConsistentCharacter_result ?h (Returns heroAnswer) = Inr ?mh"
    by (intro identified_answer) (simp_all add: js_def)
  have selh: "selectAvatar ?h (avatars heroApp) ?mh = Inr (Ref ?hero)"
    by (simp add: selectAvatar_def avs js_def)
  have who: "ToString ?h (characterName ?mh) = Inr (js ''Unknown'')" by simp
  note hero = payload_parts_order [of heroApp frame1 frame1Text ?h ?mh "Ref ?hero" "js ''Unknown''" 1 0,
      OF frame1_text, unfolded answeringEnv_service, OF mh selh who unpacked]
  have ab: "orNull (optField (Ref ?hero) base64) = Some (js ''SA=='') \<and>
            orNull (optField (Ref ?hero) mimeType) = Some (js ''image/png'')"
    by (simp add: optField_def orNull_def js_def)
  from hero have 1: "length (trace (processFrame ?h 1 0 frame1 heroApp)) = 4"
    by (simp add: heroApp_fresh)
  from hero ab have 2: "\<exists>p. contents (last (trace (processFrame ?h 1 0 frame1 heroApp))) =
      Parts [TextPart (js ''[PROMPT] '' @ p),
             TextPart (js ''\<newline>\<newline>[INSTRUCTION] This is an IDENTITY TRANSPLANT. Use the AVATAR image as the *only* source for the person's identity. Use the SCENE image for pose, lighting, and composition. Replace the person in the SCENE with the person from the AVATAR.''),
             TextPart (js ''\<newline>\<newline>AVATAR (Identity Source):''),
             InlineData (js ''SA=='') (js ''image/png''),
             TextPart (js ''\<newline>\<newline>SCENE (Composition Source):''),
             InlineData (js ''QQ=='') (js ''image/png'')]"
    by (auto simp: heroApp_fresh img)
  let ?g = "answeringEnv ghostAnswer"
  let ?mg = "\<lparr>characterName = JStr (js ''Unknown''), avatarFilename = JStr (js ''ghost.png''),
              otherCharacters = Some (JArr [])\<rparr>"
  have "JSON_parse ?g (orDefault (responseText ghostAnswer) (js ''{}'')) =
          Some (JObj [(js ''avatarFilename'', JStr (js ''ghost.png''))])"
    by (simp add: answeringEnv_parse exampleParse_def ghostAnswer_def orDefault_def js_def)
  then have mg: "identifyConsistentCharacter_result ?g (Returns ghostAnswer) = Inr ?mg"
    by (intro identified_answer) (simp_all add: js_def)
  have selg: "selectAvatar ?g (avatars heroApp) ?mg = Inr Undefined"
    by (simp add: selectAvatar_def avs js_def)
  have whog: "ToString ?g (characterName ?mg) = Inr (js ''Unknown'')" by simp
  note ghost = payload_parts_order [of heroApp frame1 frame1Text ?g ?mg Undefined "js ''Unknown''" 1 0,
      OF frame1_text, unfolded answeringEnv_service, OF mg selg whog unpacked]
  have none: "orNull (optField (Undefined :: SourceImage jsref) base64) = None"
    by (simp add: optField_def orNull_def)
  from ghost none have 3: "\<exists>p. contents (last (trace (processFrame ?g 1 0 frame1 heroApp))) =
      Parts [TextPart (js ''TASK: CINEMATIC RE-RENDER.\<newline>'' @
                       js ''           - Enhance the following image based on this style: '' @ p @
                       js ''\<newline>'' @
                       js ''           - OUTPUT: A single, high-fidelity, color film frame.''),
             InlineData (js ''QQ=='') (js ''image/png'')]"
    by (auto simp: heroApp_fresh img)
  from 1 2 3 show ?thesis by blast
qed

end
